theory Spec2Isabelle
  imports Complex_Main
begin

section \<open>Python values\<close>

text \<open>
  A Python \<open>str\<close> is a sequence of Unicode code points. Several literals of
  \<open>sentiment_api.py\<close> hold code points above 255, so a string is a list of code points
  here, and \<open>ustr\<close> embeds an ASCII literal.
\<close>

type_synonym pystr = "nat list"

definition ustr :: "string \<Rightarrow> pystr" where
  "ustr s = map of_char s"

text \<open>
  \<open>str.isspace\<close> for one code point: the code points for which CPython 3.11 answers
  True.
\<close>

definition isspace :: "nat \<Rightarrow> bool" where
  "isspace c \<longleftrightarrow>
     (9 \<le> c \<and> c \<le> 13) \<or> (28 \<le> c \<and> c \<le> 32) \<or> c = 133 \<or> c = 160 \<or> c = 5760 \<or>
     (8192 \<le> c \<and> c \<le> 8202) \<or> c = 8232 \<or> c = 8233 \<or> c = 8239 \<or> c = 8287 \<or> c = 12288"

text \<open>\<open>str.strip()\<close> without argument: whitespace is removed at both ends.\<close>

definition strip :: "pystr \<Rightarrow> pystr" where
  "strip s = rev (dropWhile isspace (rev (dropWhile isspace s)))"

text \<open>
  \<open>str.lower()\<close>. The letters A-Z and the capital letters of Latin-1 are mapped; a code
  point above 255 is left as it is, where CPython consults the Unicode database. The
  result is only ever used as a key into \<open>label_map\<close>, whose keys are ASCII; the single
  code point above 127 whose lower case is an ASCII letter is U+212A (giving k), a
  letter that no key contains.
\<close>

definition lower_cp :: "nat \<Rightarrow> nat" where
  "lower_cp c =
     (if (65 \<le> c \<and> c \<le> 90) \<or> (192 \<le> c \<and> c \<le> 222 \<and> c \<noteq> 215) then c + 32 else c)"

definition lower :: "pystr \<Rightarrow> pystr" where
  "lower s = map lower_cp s"

text \<open>
  The values that travel in request and response bodies. A finite Python \<open>float\<close> is
  the rational number it denotes; NaN, the infinities and the sign of a zero are not
  represented.
\<close>

datatype pyval =
    PNone
  | PBool bool
  | PInt int
  | PFloat rat
  | PStr pystr
  | PList "pyval list"
  | PDict "(pystr \<times> pyval) list"

type_synonym pydict = "(pystr \<times> pyval) list"

text \<open>\<open>d.get(k)\<close>, None when the key is missing, and \<open>d.get(k, default)\<close>.\<close>

definition dict_get :: "(pystr \<times> 'v) list \<Rightarrow> pystr \<Rightarrow> 'v option" where
  "dict_get d k = map_of d k"

definition dict_get_default :: "(pystr \<times> 'v) list \<Rightarrow> pystr \<Rightarrow> 'v \<Rightarrow> 'v" where
  "dict_get_default d k dflt = (case map_of d k of None \<Rightarrow> dflt | Some v \<Rightarrow> v)"

text \<open>Truthiness, as \<open>not x\<close> tests it.\<close>

fun truthy :: "pyval \<Rightarrow> bool" where
  "truthy PNone = False"
| "truthy (PBool b) = b"
| "truthy (PInt i) = (i \<noteq> 0)"
| "truthy (PFloat r) = (r \<noteq> 0)"
| "truthy (PStr s) = (s \<noteq> [])"
| "truthy (PList xs) = (xs \<noteq> [])"
| "truthy (PDict kvs) = (kvs \<noteq> [])"

fun type_name :: "pyval \<Rightarrow> string" where
  "type_name PNone = ''NoneType''"
| "type_name (PBool b) = ''bool''"
| "type_name (PInt i) = ''int''"
| "type_name (PFloat r) = ''float''"
| "type_name (PStr s) = ''str''"
| "type_name (PList xs) = ''list''"
| "type_name (PDict kvs) = ''dict''"

subsection \<open>Exceptions\<close>

text \<open>
  An exception is its class, as far as an \<open>except\<close> clause of the two files can tell
  classes apart (a subclass counts as the class that catches it, so ModuleNotFoundError
  is an \<open>ImportError\<close>), and the text that \<open>str(e)\<close> gives. All of them are
  subclasses of \<open>Exception\<close>; \<open>OtherException\<close> stands for every class not named.
\<close>

datatype exn_class =
    ImportError | CalledProcessError | IndexError | ValueError | AttributeError
  | OtherException

datatype py_exn = Exn exn_class pystr

fun exn_class_of :: "py_exn \<Rightarrow> exn_class" where
  "exn_class_of (Exn c m) = c"

fun exn_str :: "py_exn \<Rightarrow> pystr" where
  "exn_str (Exn c m) = m"

text \<open>\<open>xs[0]\<close> and \<open>max(xs, key=f)\<close>, with the errors CPython 3.11 raises.\<close>

fun index0 :: "'a list \<Rightarrow> py_exn + 'a" where
  "index0 [] = Inl (Exn IndexError (ustr ''list index out of range''))"
| "index0 (x # xs) = Inr x"

fun max_by :: "('a \<Rightarrow> rat) \<Rightarrow> 'a list \<Rightarrow> py_exn + 'a" where
  "max_by f [] = Inl (Exn ValueError (ustr ''max() arg is an empty sequence''))"
| "max_by f (x # xs) = Inr (foldl (\<lambda>best y. if f y > f best then y else best) x xs)"

subsection \<open>Floating-point operations\<close>

text \<open>
  The three float operations the service uses are those of the interpreter: the product
  \<open>a * b\<close>, \<open>round(x, ndigits)\<close> and the text of a float inside an f-string. They are
  inexact, and taken as parameters; \<open>binary64_ops\<close> below gives them as CPython
  computes them.
\<close>

record float_ops =
  float_mul :: "rat \<Rightarrow> rat \<Rightarrow> rat"
  float_round :: "rat \<Rightarrow> nat \<Rightarrow> rat"
  float_str :: "rat \<Rightarrow> pystr"

section \<open>sentiment\_api.py\<close>

subsection \<open>Module level: application name and deployment descriptors\<close>

text \<open>
  \<open>environ\<close> is the process environment as \<open>os.getenv\<close> sees it, after
  \<open>load_dotenv('.env.local')\<close> has run.
\<close>

type_synonym environ = "pystr \<rightharpoonup> pystr"

definition app_name :: "environ \<Rightarrow> pystr" where
  "app_name env =
     (case env (ustr ''SENTIMENT_APP_NAME'') of
        None \<Rightarrow> ustr ''sentiment-analyzer''
      | Some v \<Rightarrow> v)"

record image =
  python_version :: string
  pip_install :: "string list"

definition image :: image where
  "image = \<lparr>python_version = ''3.11'',
            pip_install = [''transformers==4.36.0'', ''torch==2.1.0'',
                           ''fastapi==0.104.1'', ''pydantic==2.5.0'']\<rparr>"

text \<open>
  The keyword arguments of \<open>@app.function(...)\<close>; an argument that is not given is
  None.
\<close>

record descriptor =
  d_image :: image
  d_timeout :: "int option"
  d_concurrency_limit :: "int option"

text \<open>
  \<open>int(os.getenv("MAX_CONCURRENT_REQUESTS", 10))\<close>: the default is the integer 10, on
  which \<open>int\<close> is the identity; a value from the environment is a string, and
  \<open>int\<close> of a string is the interpreter's parser, a parameter here.
\<close>

definition max_concurrent_requests :: "(pystr \<Rightarrow> py_exn + int) \<Rightarrow> environ \<Rightarrow> py_exn + int" where
  "max_concurrent_requests int_of_str env =
     (case env (ustr ''MAX_CONCURRENT_REQUESTS'') of
        None \<Rightarrow> Inr 10
      | Some v \<Rightarrow> int_of_str v)"

definition analyze_sentiment_descriptor ::
    "(pystr \<Rightarrow> py_exn + int) \<Rightarrow> environ \<Rightarrow> py_exn + descriptor" where
  "analyze_sentiment_descriptor int_of_str env =
     (case max_concurrent_requests int_of_str env of
        Inl e \<Rightarrow> Inl e
      | Inr n \<Rightarrow> Inr \<lparr>d_image = image, d_timeout = Some 300, d_concurrency_limit = Some n\<rparr>)"

definition sentiment_endpoint_descriptor :: descriptor where
  "sentiment_endpoint_descriptor =
     \<lparr>d_image = image, d_timeout = None, d_concurrency_limit = None\<rparr>"

definition batch_sentiment_analysis_descriptor :: descriptor where
  "batch_sentiment_analysis_descriptor =
     \<lparr>d_image = image, d_timeout = Some 600, d_concurrency_limit = None\<rparr>"

subsection \<open>analyze\_sentiment\<close>

text \<open>
  What a run of the service does to the world outside it: constructing a pipeline,
  calling one on a text, and invoking the deployed \<open>analyze_sentiment\<close> remotely.
\<close>

datatype api_event = PipelineLoad | PipelineCall pystr | RemoteCall pystr

text \<open>One class of the classifier's output, the dict \<open>{'label': ..., 'score': ...}\<close>.\<close>

record prediction =
  label :: pystr
  score :: rat

text \<open>A value of \<open>label_map\<close>, the dict \<open>{'label': ..., 'emoji': ...}\<close>.\<close>

record mapped =
  m_label :: pystr
  m_emoji :: pystr

text \<open>The four glyph literals, code point by code point as the source file has them.\<close>

definition emoji_negative :: pystr where "emoji_negative = [240, 376, 732, 382]"
definition emoji_neutral :: pystr where "emoji_neutral = [240, 376, 732]"
definition emoji_positive :: pystr where "emoji_positive = [240, 376, 732, 352]"
definition emoji_unmapped :: pystr where "emoji_unmapped = [240, 376, 164, 8221]"

definition label_map :: "(pystr \<times> mapped) list" where
  "label_map =
     [(ustr ''LABEL_0'', \<lparr>m_label = ustr ''Negative'', m_emoji = emoji_negative\<rparr>),
      (ustr ''LABEL_1'', \<lparr>m_label = ustr ''Neutral'', m_emoji = emoji_neutral\<rparr>),
      (ustr ''LABEL_2'', \<lparr>m_label = ustr ''Positive'', m_emoji = emoji_positive\<rparr>),
      (ustr ''negative'', \<lparr>m_label = ustr ''Negative'', m_emoji = emoji_negative\<rparr>),
      (ustr ''neutral'', \<lparr>m_label = ustr ''Neutral'', m_emoji = emoji_neutral\<rparr>),
      (ustr ''positive'', \<lparr>m_label = ustr ''Positive'', m_emoji = emoji_positive\<rparr>)]"

text \<open>
  A pipeline is called on a text and returns or raises. Built with
  \<open>return_all_scores=True\<close> it returns, for the one input, a list holding the list of
  all classes; built without, a list holding the top class.
\<close>

type_synonym all_scores_pipeline = "pystr \<Rightarrow> py_exn + prediction list list"
type_synonym top_label_pipeline = "pystr \<Rightarrow> py_exn + prediction list"

text \<open>The body of the \<open>try\<close> block.\<close>

definition analyze_try :: "float_ops \<Rightarrow> all_scores_pipeline \<Rightarrow> pystr \<Rightarrow> py_exn + pydict" where
  "analyze_try F sentiment_pipeline text =
     (case sentiment_pipeline text of
        Inl e \<Rightarrow> Inl e
      | Inr out \<Rightarrow>
     (case index0 out of
        Inl e \<Rightarrow> Inl e
      | Inr results \<Rightarrow>
     (case max_by score results of
        Inl e \<Rightarrow> Inl e
      | Inr top_result \<Rightarrow>
          (let mapped = dict_get_default label_map (lower (label top_result))
                          \<lparr>m_label = label top_result, m_emoji = emoji_unmapped\<rparr>
           in Inr [(ustr ''text'', PStr text),
                   (ustr ''label'', PStr (m_label mapped)),
                   (ustr ''score'', PFloat (float_round F (score top_result) 3)),
                   (ustr ''confidence'',
                      PStr (float_str F (float_round F (float_mul F (score top_result) 100) 1)
                            @ ustr ''%'')),
                   (ustr ''emoji'', PStr (m_emoji mapped)),
                   (ustr ''status'', PStr (ustr ''success''))]))))"

text \<open>
  \<open>transformers_pipeline\<close> is the outcome of the import and of the call
  \<open>pipeline("sentiment-analysis", model=..., return_all_scores=True)\<close>, which stand
  before the \<open>try\<close>: an exception there leaves the function.
\<close>

definition analyze_sentiment ::
    "float_ops \<Rightarrow> (py_exn + all_scores_pipeline) \<Rightarrow> pystr \<Rightarrow> api_event list \<times> (py_exn + pydict)" where
  "analyze_sentiment F transformers_pipeline text =
     (case transformers_pipeline of
        Inl e \<Rightarrow> ([PipelineLoad], Inl e)
      | Inr sentiment_pipeline \<Rightarrow>
          ([PipelineLoad, PipelineCall text],
           (case analyze_try F sentiment_pipeline text of
              Inr d \<Rightarrow> Inr d
            | Inl e \<Rightarrow> Inr [(ustr ''text'', PStr text),
                           (ustr ''error'', PStr (exn_str e)),
                           (ustr ''status'', PStr (ustr ''error''))])))"

subsection \<open>sentiment\_endpoint\<close>

definition missing_text_response :: pydict where
  "missing_text_response =
     [(ustr ''error'', PStr (ustr ''Please provide text to analyze'')),
      (ustr ''status'', PStr (ustr ''error''))]"

text \<open>The AttributeError of \<open>text.strip()\<close> on a value that is not a string.\<close>

definition no_strip_error :: "pyval \<Rightarrow> py_exn" where
  "no_strip_error v =
     Exn AttributeError
       (ustr ([CHR 0x27] @ type_name v @ [CHR 0x27] @ '' object has no attribute ''
              @ [CHR 0x27] @ ''strip'' @ [CHR 0x27]))"

text \<open>
  \<open>analyze_sentiment_remote\<close> is \<open>analyze_sentiment.remote\<close>, the invocation of the
  deployed function: what it does and what it returns or raises.
\<close>

definition sentiment_endpoint ::
    "(pystr \<Rightarrow> api_event list \<times> (py_exn + pydict)) \<Rightarrow> pydict
       \<Rightarrow> api_event list \<times> (py_exn + pydict)" where
  "sentiment_endpoint analyze_sentiment_remote data =
     (let text = dict_get_default data (ustr ''text'') (PStr [])
      in if \<not> truthy text then ([], Inr missing_text_response)
         else (case text of
                 PStr s \<Rightarrow>
                   if strip s = [] then ([], Inr missing_text_response)
                   else (case analyze_sentiment_remote s of
                           (events, result) \<Rightarrow> (RemoteCall s # events, result))
               | _ \<Rightarrow> ([], Inl (no_strip_error text))))"

subsection \<open>health\_check\<close>

definition health_check :: "api_event list \<times> (py_exn + pydict)" where
  "health_check =
     ([], Inr [(ustr ''status'', PStr (ustr ''healthy'')),
               (ustr ''service'', PStr (ustr ''sentiment-analyzer'')),
               (ustr ''message'',
                  PStr (ustr ''Ready to analyze sentiment! Send POST requests to /sentiment_endpoint''))])"

subsection \<open>batch\_sentiment\_analysis\<close>

text \<open>The body of the \<open>try\<close> block inside the loop.\<close>

definition batch_try :: "float_ops \<Rightarrow> top_label_pipeline \<Rightarrow> pystr \<Rightarrow> py_exn + pydict" where
  "batch_try F sentiment_pipeline text =
     (case sentiment_pipeline text of
        Inl e \<Rightarrow> Inl e
      | Inr out \<Rightarrow>
     (case index0 out of
        Inl e \<Rightarrow> Inl e
      | Inr result \<Rightarrow>
          Inr [(ustr ''text'', PStr text),
               (ustr ''label'', PStr (label result)),
               (ustr ''score'', PFloat (float_round F (score result) 3)),
               (ustr ''status'', PStr (ustr ''success''))]))"

text \<open>One pass of the loop body: the entry appended to \<open>results\<close>.\<close>

definition batch_entry :: "float_ops \<Rightarrow> top_label_pipeline \<Rightarrow> pystr \<Rightarrow> pydict" where
  "batch_entry F sentiment_pipeline text =
     (case batch_try F sentiment_pipeline text of
        Inr d \<Rightarrow> d
      | Inl e \<Rightarrow> [(ustr ''text'', PStr text),
                  (ustr ''error'', PStr (exn_str e)),
                  (ustr ''status'', PStr (ustr ''error''))])"

text \<open>The \<open>for\<close> loop, with the events so far and \<open>results\<close> as its state.\<close>

fun batch_loop ::
    "float_ops \<Rightarrow> top_label_pipeline \<Rightarrow> pystr list \<Rightarrow> api_event list \<times> pydict list
       \<Rightarrow> api_event list \<times> pydict list" where
  "batch_loop F sentiment_pipeline [] (events, results) = (events, results)"
| "batch_loop F sentiment_pipeline (text # texts) (events, results) =
     batch_loop F sentiment_pipeline texts
       (events @ [PipelineCall text], results @ [batch_entry F sentiment_pipeline text])"

text \<open>
  As in \<open>analyze_sentiment\<close>, the import and \<open>pipeline("sentiment-analysis")\<close> stand
  outside every \<open>try\<close>.
\<close>

definition batch_sentiment_analysis ::
    "float_ops \<Rightarrow> (py_exn + top_label_pipeline) \<Rightarrow> pystr list
       \<Rightarrow> api_event list \<times> (py_exn + pydict list)" where
  "batch_sentiment_analysis F transformers_pipeline texts =
     (case transformers_pipeline of
        Inl e \<Rightarrow> ([PipelineLoad], Inl e)
      | Inr sentiment_pipeline \<Rightarrow>
          (case batch_loop F sentiment_pipeline texts ([PipelineLoad], []) of
             (events, results) \<Rightarrow> (events, Inr results)))"

subsection \<open>The float operations of CPython\<close>

text \<open>
  CPython's \<open>float\<close> is IEEE 754 binary64. The instance below works on the rational
  values of finite floats: every result is rounded to the nearest float, ties to the even
  significand. It leaves out what a rational cannot carry, the sign of zero, and the
  overflow to infinity (the service's products stay below 100 for scores in [0,1]).
\<close>

definition pow_int :: "rat \<Rightarrow> int \<Rightarrow> rat" where
  "pow_int b k = (if 0 \<le> k then b ^ nat k else 1 / b ^ nat (- k))"

text \<open>The number of digits of a positive integer in base \<open>b\<close>.\<close>

function digit_count :: "int \<Rightarrow> int \<Rightarrow> nat" where
  "digit_count b a = (if a \<le> 0 \<or> b \<le> 1 then 0 else Suc (digit_count b (a div b)))"
  by pat_completeness auto
termination
  by (relation "measure (\<lambda>(b, a). nat a)") (auto simp: int_div_less_self)

text \<open>For positive \<open>x\<close>, the exponent \<open>e\<close> with \<open>b ^ e \<le> x < b ^ (e + 1)\<close>.\<close>

definition floor_log :: "int \<Rightarrow> rat \<Rightarrow> int" where
  "floor_log b x =
     (case quotient_of x of
        (p, q) \<Rightarrow>
          (let k = int (digit_count b p) - int (digit_count b q)
           in if pow_int (of_int b) k \<le> x then k else k - 1))"

definition round_half_even :: "rat \<Rightarrow> int" where
  "round_half_even x =
     (let f = \<lfloor>x\<rfloor>; d = x - of_int f
      in if d < 1 / 2 then f else if 1 / 2 < d then f + 1 else if even f then f else f + 1)"

text \<open>
  The nearest binary64 value: 53 significant bits, and below \<open>2 ^ -1022\<close> the fixed
  spacing of the subnormal range.
\<close>

definition binary64 :: "rat \<Rightarrow> rat" where
  "binary64 x =
     (if x = 0 then 0
      else (let q = pow_int 2 (max (floor_log 2 \<bar>x\<bar>) (- 1022) - 52)
            in of_int (round_half_even (x / q)) * q))"

text \<open>
  \<open>round(x, ndigits)\<close>: the decimal expansion of the float is rounded correctly, half
  to even, and the result is converted back to a float.
\<close>

definition decimal_round :: "rat \<Rightarrow> nat \<Rightarrow> rat" where
  "decimal_round x ndigits = of_int (round_half_even (x * 10 ^ ndigits)) / 10 ^ ndigits"

text \<open>
  The text of a float, as \<open>repr\<close> and an f-string give it: the shortest decimal that
  converts back to the same float, written \<open>m * 10 ^ ex\<close>. It is found among the
  roundings of the value to 1, 2, ..., 17 significant digits; 17 digits always convert
  back, so the search ends there for every float.
\<close>

definition sig_round :: "rat \<Rightarrow> nat \<Rightarrow> int \<times> int" where
  "sig_round x p =
     (let ex = floor_log 10 x - int p + 1;
          m = round_half_even (x / pow_int 10 ex)
      in if m = 10 ^ p then (1, ex + int p) else (m, ex))"

definition shortest :: "rat \<Rightarrow> int \<times> int" where
  "shortest x =
     (case List.find (\<lambda>(m, ex). binary64 (of_int m * pow_int 10 ex) = x)
             (map (sig_round x) [1..<18]) of
        Some c \<Rightarrow> c
      | None \<Rightarrow> sig_round x 17)"

text \<open>The decimal digits of a non-negative integer, as code points.\<close>

function int_digits :: "int \<Rightarrow> pystr" where
  "int_digits n =
     (if n < 10 then [48 + nat n] else int_digits (n div 10) @ [48 + nat (n mod 10)])"
  by pat_completeness auto
termination
  by (relation "measure nat") (auto simp: int_div_less_self)

definition positional :: "int \<Rightarrow> int \<Rightarrow> pystr" where
  "positional m ex =
     (let ds = int_digits m
      in if 0 \<le> ex then ds @ replicate (nat ex) 48 @ ustr ''.0''
         else (let n = nat (- ex)
               in if n < length ds
                  then take (length ds - n) ds @ ustr ''.'' @ drop (length ds - n) ds
                  else ustr ''0.'' @ replicate (n - length ds) 48 @ ds))"

definition scientific :: "int \<Rightarrow> int \<Rightarrow> pystr" where
  "scientific m ex =
     (let ds = int_digits m;
          e = ex + int (length ds) - 1;
          es = int_digits \<bar>e\<bar>
      in (case ds of
            [] \<Rightarrow> []
          | d # rest \<Rightarrow> d # (if rest = [] then [] else ustr ''.'' @ rest))
         @ ustr ''e'' @ (if e < 0 then ustr ''-'' else ustr ''+'')
         @ (if length es < 2 then ustr ''0'' @ es else es))"

text \<open>
  The exponent form is used when the decimal point would stand more than 16 digits to the
  right of the first digit or 4 or more zeros to its left.
\<close>

definition float_repr :: "rat \<Rightarrow> pystr" where
  "float_repr x =
     (if x = 0 then ustr ''0.0''
      else (case shortest \<bar>x\<bar> of
              (m, ex) \<Rightarrow>
                (let decpt = ex + int (length (int_digits m))
                 in (if x < 0 then ustr ''-'' else [])
                    @ (if decpt \<le> - 4 \<or> 16 < decpt then scientific m ex
                       else positional m ex))))"

definition binary64_ops :: float_ops where
  "binary64_ops =
     \<lparr>float_mul = (\<lambda>a b. binary64 (a * b)),
      float_round = (\<lambda>x ndigits. binary64 (decimal_round x ndigits)),
      float_str = float_repr\<rparr>"

section \<open>modal\_setup.py\<close>

text \<open>
  The script acts on the machine through a few calls whose outcome the machine decides:
  None when the call returns, the exception when it raises.
\<close>

record setup_env =
  import_modal :: "py_exn option"
  pip_install_modal :: "py_exn option"
  env_local_exists :: bool
  load_dotenv :: "py_exn option"
  modal_setup :: "py_exn option"
  import_modal_verify :: "py_exn option"
  create_test_app :: "py_exn option"

text \<open>What a run does, in order: the lines it prints and the calls it makes.\<close>

datatype setup_event =
    Print pystr
  | ImportModal
  | PipInstall
  | PathExists
  | LoadDotenv
  | RunModalSetup
  | CreateTestApp

definition check_modal_installation :: "setup_env \<Rightarrow> setup_event list \<times> (py_exn + bool)" where
  "check_modal_installation env =
     (case import_modal env of
        None \<Rightarrow>
          ([ImportModal, Print (ustr ''Modal is already installed - ready to proceed'')],
           Inr True)
      | Some e \<Rightarrow>
          if exn_class_of e = ImportError then
            (let events =
                   [ImportModal,
                    Print (ustr ''Modal not found on your system - installing now...''),
                    Print (ustr ''This may take a minute to download and install...''),
                    PipInstall]
             in case pip_install_modal env of
                  Some e' \<Rightarrow> (events, Inl e')
                | None \<Rightarrow> (events @ [Print (ustr ''Modal installed successfully'')], Inr True))
          else ([ImportModal], Inl e))"

definition setup_modal_auth :: "setup_env \<Rightarrow> setup_event list \<times> (py_exn + bool)" where
  "setup_modal_auth env =
     (let events =
            [Print (ustr ''\<newline>Setting up Modal authentication...''),
             Print (ustr ''This will open a browser window where you can:''),
             Print (ustr (''1. Create a free Modal account (if you don'' @ [CHR 0x27]
                          @ ''t have one)'')),
             Print (ustr ''2. Authorize this computer to deploy to Modal''),
             Print (ustr ''3. Get your authentication tokens''),
             RunModalSetup]
      in case modal_setup env of
           None \<Rightarrow>
             (events @ [Print (ustr ''Modal authentication successful - you can now deploy models'')],
              Inr True)
         | Some e \<Rightarrow>
             if exn_class_of e = CalledProcessError then
               (events @
                  [Print (ustr ''Modal setup failed with error: '' @ exn_str e),
                   Print (ustr (''Please run '' @ [CHR 0x27] @ ''modal setup'' @ [CHR 0x27]
                                @ '' manually in your terminal and try again''))],
                Inr False)
             else (events, Inl e))"

text \<open>
  Everything in \<open>verify_modal_connection\<close> is inside \<open>try\<close>, and
  \<open>except Exception\<close> catches whatever the import or the construction of the test app
  raises.
\<close>

definition verify_failed :: "py_exn \<Rightarrow> setup_event list" where
  "verify_failed e =
     [Print (ustr ''Modal connection test failed: '' @ exn_str e),
      Print (ustr (''Try running '' @ [CHR 0x27] @ ''modal setup'' @ [CHR 0x27]
                   @ '' again or check your internet connection''))]"

definition verify_modal_connection :: "setup_env \<Rightarrow> setup_event list \<times> (py_exn + bool)" where
  "verify_modal_connection env =
     (case import_modal_verify env of
        Some e \<Rightarrow> (ImportModal # verify_failed e, Inr False)
      | None \<Rightarrow>
          (case create_test_app env of
             Some e \<Rightarrow> ([ImportModal, CreateTestApp] @ verify_failed e, Inr False)
           | None \<Rightarrow>
               ([ImportModal, CreateTestApp,
                 Print (ustr ''Modal connection verified - ready to deploy real models'')],
                Inr True)))"

definition load_environment :: "setup_env \<Rightarrow> setup_event list \<times> (py_exn + unit)" where
  "load_environment env =
     (if env_local_exists env then
        (case load_dotenv env of
           Some e \<Rightarrow> ([PathExists, LoadDotenv], Inl e)
         | None \<Rightarrow>
             ([PathExists, LoadDotenv,
               Print (ustr ''Custom environment variables loaded from .env.local''),
               Print (ustr ''You can edit .env.local to customize app names and settings'')],
              Inr ()))
      else
        ([PathExists,
          Print (ustr ''No .env.local file found - using default settings''),
          Print (ustr ''You can create .env.local later to customize your deployments'')],
         Inr ()))"

text \<open>The header line of each step, and the line of the install-failure branch.\<close>

definition step1_line :: pystr where
  "step1_line = ustr ''Step 1: Checking Modal installation...''"

definition step2_line :: pystr where
  "step2_line = ustr ''\<newline>Step 2: Loading environment settings...''"

definition step3_line :: pystr where
  "step3_line = ustr ''\<newline>Step 3: Setting up Modal authentication...''"

definition step4_line :: pystr where
  "step4_line = ustr ''\<newline>Step 4: Verifying Modal connection...''"

definition install_failed_line :: pystr where
  "install_failed_line = ustr ''Failed to install Modal - please install manually''"

definition main_banner :: "setup_event list" where
  "main_banner =
     [Print (ustr ''Modal Workshop Setup''),
      Print (ustr ''This script will prepare your computer for serverless ML deployment''),
      Print (replicate 60 (of_char CHR ''=''))]"

definition main_success :: "setup_event list" where
  "main_success =
     [Print (ustr ''\<newline>Setup complete! Your system is ready for serverless ML deployment''),
      Print (ustr ''\<newline>What you can do now:''),
      Print (ustr ''1. Deploy simple models: python sentiment_api.py''),
      Print (ustr ''2. Deploy to Modal cloud: modal deploy sentiment_api.py''),
      Print (ustr ''3. Test your deployments: python test_deployment.py''),
      Print (ustr ''4. Try GPU models: modal deploy image_classifier.py'')]"

definition main :: "setup_env \<Rightarrow> setup_event list \<times> (py_exn + bool)" where
  "main env =
     (let out1 = main_banner @ [Print step1_line]
      in case check_modal_installation env of
           (ev1, Inl e) \<Rightarrow> (out1 @ ev1, Inl e)
         | (ev1, Inr installed) \<Rightarrow>
     if \<not> installed then (out1 @ ev1 @ [Print install_failed_line], Inr False)
     else
     (let out2 = out1 @ ev1 @ [Print step2_line]
      in case load_environment env of
           (ev2, Inl e) \<Rightarrow> (out2 @ ev2, Inl e)
         | (ev2, Inr u) \<Rightarrow>
     (let out3 = out2 @ ev2 @ [Print step3_line]
      in case setup_modal_auth env of
           (ev3, Inl e) \<Rightarrow> (out3 @ ev3, Inl e)
         | (ev3, Inr authenticated) \<Rightarrow>
     if \<not> authenticated then
       (out3 @ ev3 @ [Print (ustr ''Authentication failed - please try manual setup'')],
        Inr False)
     else
     (let out4 = out3 @ ev3 @ [Print step4_line]
      in case verify_modal_connection env of
           (ev4, Inl e) \<Rightarrow> (out4 @ ev4, Inl e)
         | (ev4, Inr verified) \<Rightarrow>
     if \<not> verified then
       (out4 @ ev4 @ [Print (ustr ''Connection test failed - please check setup'')],
        Inr False)
     else (out4 @ ev4 @ main_success, Inr True)))))"

text \<open>
  The \<open>__main__\<close> block, with the exit status of the process: 0 when the block runs
  to its end, 1 on \<open>sys.exit(1)\<close> and 1 when an exception leaves \<open>main\<close> uncaught.
\<close>

definition script :: "setup_env \<Rightarrow> setup_event list \<times> int" where
  "script env =
     (case main env of
        (events, Inl e) \<Rightarrow> (events, 1)
      | (events, Inr success) \<Rightarrow>
          if \<not> success then
            (events @ [Print (ustr ''\<newline>Setup failed - please ask for help before proceeding'')],
             1)
          else
            (events @ [Print (ustr (''\<newline>You'' @ [CHR 0x27]
                                    @ ''re all set! Start with sentiment_api.py''))],
             0))"



section \<open>Concrete inputs\<close>

text \<open>
  A classifier output for the text of the end-to-end scenario, and a pipeline that
  returns it.
\<close>

definition workshop_scores :: "prediction list" where
  "workshop_scores =
     [\<lparr>label = ustr ''negative'', score = 1 / 256\<rparr>,
      \<lparr>label = ustr ''neutral'', score = 3 / 256\<rparr>,
      \<lparr>label = ustr ''positive'', score = 63 / 64\<rparr>]"

definition workshop_pipeline :: all_scores_pipeline where
  "workshop_pipeline t = Inr [workshop_scores]"

text \<open>
  The same scores under the label names of the older model versions, which
  \<open>label_map\<close> lists as \<open>LABEL_0\<close>, \<open>LABEL_1\<close> and \<open>LABEL_2\<close>.
\<close>

definition legacy_scores :: "prediction list" where
  "legacy_scores =
     [\<lparr>label = ustr ''LABEL_0'', score = 1 / 256\<rparr>,
      \<lparr>label = ustr ''LABEL_1'', score = 3 / 256\<rparr>,
      \<lparr>label = ustr ''LABEL_2'', score = 63 / 64\<rparr>]"

definition legacy_pipeline :: all_scores_pipeline where
  "legacy_pipeline t = Inr [legacy_scores]"

text \<open>A top-label pipeline that raises on the text "a" and classifies every other text.\<close>

definition flaky_pipeline :: top_label_pipeline where
  "flaky_pipeline t =
     (if t = ustr ''a'' then Inl (Exn OtherException (ustr ''input too long''))
      else Inr [\<lparr>label = ustr ''POSITIVE'', score = 4095 / 4096\<rparr>])"

text \<open>
  Machines for the setup script: one on which every call succeeds, one on which
  \<open>modal setup\<close> exits with a failure status, one on which the \<open>modal\<close> command
  is not found, so that \<open>subprocess.run\<close> raises FileNotFoundError, one on which the
  test app cannot be constructed, and one without the client library on which \<open>pip\<close>
  fails too.
\<close>

definition machine_ready :: setup_env where
  "machine_ready =
     \<lparr>import_modal = None, pip_install_modal = None, env_local_exists = False,
      load_dotenv = None, modal_setup = None, import_modal_verify = None,
      create_test_app = None\<rparr>"




definition machine_no_pip :: setup_env where
  "machine_no_pip =
     machine_ready\<lparr>import_modal := Some (Exn ImportError (ustr ''No module named modal'')),
                   pip_install_modal :=
       Some (Exn CalledProcessError (ustr ''Command returned non-zero exit status 1.''))\<rparr>"

section \<open>Basic facts\<close>

lemma ustr_eq_iff [simp]: "ustr a = ustr b \<longleftrightarrow> a = b"
  by (simp add: ustr_def inj_map_eq_map inj_of_char)

lemma ustr_Nil [simp]: "ustr [] = []"
  by (simp add: ustr_def)

lemma ustr_Cons: "ustr (c # cs) = of_char c # ustr cs"
  by (simp add: ustr_def)

lemma lower_Nil: "lower [] = []"
  by (simp add: lower_def)

lemma lower_Cons: "lower (c # cs) = lower_cp c # lower cs"
  by (simp add: lower_def)

text \<open>No lower-cased string starts with a capital letter, so none is a capital key.\<close>

lemma lower_cp_not_capital: "\<not> (65 \<le> lower_cp c \<and> lower_cp c \<le> 90)"
  by (simp add: lower_cp_def)

lemma lower_not_capital_key:
  "lower raw \<notin> {ustr ''LABEL_0'', ustr ''LABEL_1'', ustr ''LABEL_2''}"
proof (cases raw)
  case Nil
  then show ?thesis
    by (simp add: lower_Nil ustr_Cons)
next
  case (Cons c cs)
  have "lower_cp c \<noteq> 76"
    using lower_cp_not_capital [of c] by auto
  with Cons show ?thesis
    by (simp add: lower_Cons ustr_Cons)
qed

section \<open>The label lookup\<close>

text \<open>
  Claim C1: the lookup in the label mapping table is case-insensitive, so that the raw
  labels "POSITIVE", "positive" and "LABEL_2" all give the display label "Positive" and
  the positive glyph.

  The lookup key is \<open>label.lower()\<close>, and the table spells three of its keys in capitals.
  "POSITIVE" and "positive" reach the entry \<open>positive\<close>; "LABEL_2" is looked up as
  \<open>label_2\<close>, which is no key, so the result carries the raw label and the glyph of the
  fallback. The theorem runs \<open>analyze_sentiment\<close> on a classifier output whose only
  class has each of the three labels; its last part says that no raw label at all reaches
  one of the three capital keys.
\<close>

theorem analyze_sentiment_label_lookup:
  "(\<exists>d. snd (analyze_sentiment F
              (Inr (\<lambda>t. Inr [[\<lparr>label = ustr ''POSITIVE'', score = s\<rparr>]])) text) = Inr d
        \<and> dict_get d (ustr ''label'') = Some (PStr (ustr ''Positive''))
        \<and> dict_get d (ustr ''emoji'') = Some (PStr emoji_positive)) \<and>
   (\<exists>d. snd (analyze_sentiment F
              (Inr (\<lambda>t. Inr [[\<lparr>label = ustr ''positive'', score = s\<rparr>]])) text) = Inr d
        \<and> dict_get d (ustr ''label'') = Some (PStr (ustr ''Positive''))
        \<and> dict_get d (ustr ''emoji'') = Some (PStr emoji_positive)) \<and>
   (\<exists>d. snd (analyze_sentiment F
              (Inr (\<lambda>t. Inr [[\<lparr>label = ustr ''LABEL_2'', score = s\<rparr>]])) text) = Inr d
        \<and> dict_get d (ustr ''label'') = Some (PStr (ustr ''LABEL_2''))
        \<and> dict_get d (ustr ''emoji'') = Some (PStr emoji_unmapped)) \<and>
   lower raw \<notin> {ustr ''LABEL_0'', ustr ''LABEL_1'', ustr ''LABEL_2''}"
  using lower_not_capital_key [of raw]
  by (simp add: analyze_sentiment_def analyze_try_def dict_get_default_def dict_get_def
      label_map_def lower_cp_def ustr_Cons lower_Cons lower_Nil)

section \<open>Failures inside analyze\_sentiment\<close>

text \<open>
  Claim C2: \<open>analyze_sentiment\<close> never raises to the caller; on any internal failure,
  a model-load error as well as an inference error, it returns a result with status
  "error" and the error message in place of the label and score fields.

  The pipeline is constructed before the \<open>try\<close> block. When the construction raises,
  the exception leaves the function: the run below ends in the exception, not in a
  result.
\<close>

theorem analyze_sentiment_load_error_raises:
  "snd (analyze_sentiment binary64_ops
          (Inl (Exn OtherException (ustr ''model not found''))) (ustr ''hello''))
     = Inl (Exn OtherException (ustr ''model not found''))"
  by (simp add: analyze_sentiment_def)

text \<open>
  Claim C2, amended: once the pipeline has been constructed, \<open>analyze_sentiment\<close>
  returns a result for every text and never raises. Whatever the pipeline does on the
  text is covered: when the call raises, when it returns an empty list (the index fails)
  and when the list of classes is empty (\<open>max\<close> fails) the result is exactly the input
  text, the error message and status "error", with no label, score, confidence or emoji
  field; otherwise the status is "success". An exception raised by the construction of the
  pipeline leaves the function as it is, before any pipeline is called.
\<close>

theorem analyze_sentiment_catches_inference_errors:
  "(\<exists>d. analyze_sentiment F (Inr sentiment_pipeline) text
          = ([PipelineLoad, PipelineCall text], Inr d) \<and>
       (\<forall>e. sentiment_pipeline text = Inl e \<longrightarrow>
            d = [(ustr ''text'', PStr text), (ustr ''error'', PStr (exn_str e)),
                 (ustr ''status'', PStr (ustr ''error''))]) \<and>
       (sentiment_pipeline text = Inr [] \<longrightarrow>
            d = [(ustr ''text'', PStr text),
                 (ustr ''error'', PStr (ustr ''list index out of range'')),
                 (ustr ''status'', PStr (ustr ''error''))]) \<and>
       (\<forall>others. sentiment_pipeline text = Inr ([] # others) \<longrightarrow>
            d = [(ustr ''text'', PStr text),
                 (ustr ''error'', PStr (ustr ''max() arg is an empty sequence'')),
                 (ustr ''status'', PStr (ustr ''error''))]) \<and>
       (\<forall>r rs others. sentiment_pipeline text = Inr ((r # rs) # others) \<longrightarrow>
            dict_get d (ustr ''status'') = Some (PStr (ustr ''success'')))) \<and>
   analyze_sentiment F (Inl e) text = ([PipelineLoad], Inl e)"
  (is "?caught \<and> ?raised")
proof
  show ?caught
  proof (cases "sentiment_pipeline text")
    case (Inl err)
    then show ?thesis
      by (simp add: analyze_sentiment_def analyze_try_def)
  next
    case (Inr out)
    show ?thesis
    proof (cases out)
      case Nil
      with Inr show ?thesis
        by (simp add: analyze_sentiment_def analyze_try_def)
    next
      case (Cons results others)
      show ?thesis
      proof (cases results)
        case Nil
        with Inr Cons show ?thesis
          by (simp add: analyze_sentiment_def analyze_try_def)
      next
        case (Cons r rs)
        with Inr \<open>out = results # others\<close> show ?thesis
          by (simp add: analyze_sentiment_def analyze_try_def dict_get_def Let_def)
      qed
    qed
  qed
  show ?raised
    by (simp add: analyze_sentiment_def)
qed

theorem analyze_sentiment_catches_inference_errors_witness:
  "analyze_sentiment binary64_ops
      (Inr (\<lambda>t. Inl (Exn OtherException (ustr ''CUDA out of memory'')))) (ustr ''hello'')
     = ([PipelineLoad, PipelineCall (ustr ''hello'')],
        Inr [(ustr ''text'', PStr (ustr ''hello'')),
             (ustr ''error'', PStr (ustr ''CUDA out of memory'')),
             (ustr ''status'', PStr (ustr ''error''))])"
  using analyze_sentiment_catches_inference_errors
    [of binary64_ops "\<lambda>t. Inl (Exn OtherException (ustr ''CUDA out of memory''))"
        "ustr ''hello''"]
  by auto

section \<open>The label of a successful analysis\<close>

text \<open>
  Claim C3: for every non-blank input text on which the classifier pipeline succeeds,
  returning a non-empty list of class scores each in [0,1], \<open>analyze_sentiment\<close>
  returns a result with status "success", a label that is "Positive", "Negative" or
  "Neutral", or the raw label if unmapped, a score in [0,1] equal to the top class score
  rounded to 3 decimal places, and a confidence string equal to the unrounded top score
  times 100, rounded to 1 decimal place and followed by "%".

  The run below is of that kind: a non-blank text, three classes with scores in [0,1],
  the top class \<open>LABEL_2\<close> with score 0.984375. \<open>LABEL_2\<close> is mapped: the table sends
  it to "Positive". The result has status "success", the score 0.984 and the confidence
  "98.4%", as the claim says, but its label is the raw \<open>LABEL_2\<close> and its glyph the one
  of the fallback: the lower-cased key \<open>label_2\<close> misses the entry, the defect of claim
  C1.
\<close>

theorem analyze_sentiment_mapped_label_raw:
  "strip (ustr ''I love this workshop!'') \<noteq> [] \<and>
   legacy_pipeline (ustr ''I love this workshop!'') = Inr [legacy_scores] \<and>
   list_all (\<lambda>r. 0 \<le> score r \<and> score r \<le> 1) legacy_scores \<and>
   dict_get label_map (ustr ''LABEL_2'')
     = Some \<lparr>m_label = ustr ''Positive'', m_emoji = emoji_positive\<rparr> \<and>
   snd (analyze_sentiment binary64_ops (Inr legacy_pipeline) (ustr ''I love this workshop!''))
     = Inr [(ustr ''text'', PStr (ustr ''I love this workshop!'')),
            (ustr ''label'', PStr (ustr ''LABEL_2'')),
            (ustr ''score'', PFloat (binary64 (984 / 1000))),
            (ustr ''confidence'', PStr (ustr ''98.4%'')),
            (ustr ''emoji'', PStr emoji_unmapped),
            (ustr ''status'', PStr (ustr ''success''))] \<and>
   ustr ''LABEL_2'' \<notin> {ustr ''Positive'', ustr ''Negative'', ustr ''Neutral''}"
proof -
  have nonblank: "strip (ustr ''I love this workshop!'') \<noteq> []"
    by (simp add: strip_def isspace_def ustr_Cons)
  have out: "legacy_pipeline (ustr ''I love this workshop!'') = Inr [legacy_scores]"
    by (simp add: legacy_pipeline_def)
  have unit: "list_all (\<lambda>r. 0 \<le> score r \<and> score r \<le> 1) legacy_scores"
    by (simp add: legacy_scores_def)
  have mapped: "dict_get label_map (ustr ''LABEL_2'')
     = Some \<lparr>m_label = ustr ''Positive'', m_emoji = emoji_positive\<rparr>"
    by (simp add: dict_get_def label_map_def)
  have run: "snd (analyze_sentiment binary64_ops (Inr legacy_pipeline)
                   (ustr ''I love this workshop!''))
     = Inr [(ustr ''text'', PStr (ustr ''I love this workshop!'')),
            (ustr ''label'', PStr (ustr ''LABEL_2'')),
            (ustr ''score'', PFloat (binary64 (984 / 1000))),
            (ustr ''confidence'', PStr (ustr ''98.4%'')),
            (ustr ''emoji'', PStr emoji_unmapped),
            (ustr ''status'', PStr (ustr ''success''))]"
    by code_simp
  have raw: "ustr ''LABEL_2'' \<notin> {ustr ''Positive'', ustr ''Negative'', ustr ''Neutral''}"
    by simp
  from nonblank out unit mapped run raw show ?thesis
    by (intro conjI)
qed

section \<open>Blank text at the POST endpoint\<close>

text \<open>
  Claim C4: for every request body whose "text" key is missing, empty, or whitespace-only
  after trimming, \<open>sentiment_endpoint\<close> returns the object with a non-empty "error"
  string and status "error", and the analysis function, and hence the model, is never
  invoked.

  The run has no event at all, so in particular no remote call, and its response is the
  same for every behaviour of the deployed analysis function.
\<close>

theorem sentiment_endpoint_blank:
  assumes "dict_get data (ustr ''text'') = None \<or>
           (\<exists>s. dict_get data (ustr ''text'') = Some (PStr s) \<and> strip s = [])"
  shows "sentiment_endpoint analyze_sentiment_remote data
           = ([], Inr [(ustr ''error'', PStr (ustr ''Please provide text to analyze'')),
                       (ustr ''status'', PStr (ustr ''error''))]) \<and>
         ustr ''Please provide text to analyze'' \<noteq> []"
proof -
  have msg: "ustr ''Please provide text to analyze'' \<noteq> []"
    by (simp add: ustr_Cons)
  from assms show ?thesis
  proof
    assume "dict_get data (ustr ''text'') = None"
    then show ?thesis
      using msg
      by (simp add: sentiment_endpoint_def dict_get_default_def dict_get_def
          missing_text_response_def)
  next
    assume "\<exists>s. dict_get data (ustr ''text'') = Some (PStr s) \<and> strip s = []"
    then obtain s where "dict_get data (ustr ''text'') = Some (PStr s)" and "strip s = []"
      by blast
    then show ?thesis
      using msg
      by (simp add: sentiment_endpoint_def dict_get_default_def dict_get_def
          missing_text_response_def Let_def)
  qed
qed

theorem sentiment_endpoint_blank_witness:
  "dict_get [(ustr ''text'', PStr (ustr ''  \<newline> ''))] (ustr ''text'')
     = Some (PStr (ustr ''  \<newline> '')) \<and>
   strip (ustr ''  \<newline> '') = [] \<and>
   sentiment_endpoint (analyze_sentiment binary64_ops (Inr workshop_pipeline))
       [(ustr ''text'', PStr (ustr ''  \<newline> ''))]
     = ([], Inr [(ustr ''error'', PStr (ustr ''Please provide text to analyze'')),
                 (ustr ''status'', PStr (ustr ''error''))]) \<and>
   dict_get [(ustr ''user'', PStr (ustr ''ada''))] (ustr ''text'') = None \<and>
   sentiment_endpoint (analyze_sentiment binary64_ops (Inr workshop_pipeline))
       [(ustr ''user'', PStr (ustr ''ada''))]
     = ([], Inr [(ustr ''error'', PStr (ustr ''Please provide text to analyze'')),
                 (ustr ''status'', PStr (ustr ''error''))])"
proof -
  have h1: "dict_get [(ustr ''text'', PStr (ustr ''  \<newline> ''))] (ustr ''text'')
     = Some (PStr (ustr ''  \<newline> ''))"
    by (simp add: dict_get_def)
  have h2: "strip (ustr ''  \<newline> '') = []"
    by (simp add: strip_def isspace_def ustr_Cons)
  have h3: "dict_get [(ustr ''user'', PStr (ustr ''ada''))] (ustr ''text'') = None"
    by (simp add: dict_get_def)
  show ?thesis
    using h1 h2 h3
      sentiment_endpoint_blank
        [of "[(ustr ''text'', PStr (ustr ''  \<newline> ''))]"
            "analyze_sentiment binary64_ops (Inr workshop_pipeline)"]
      sentiment_endpoint_blank
        [of "[(ustr ''user'', PStr (ustr ''ada''))]"
            "analyze_sentiment binary64_ops (Inr workshop_pipeline)"]
    by simp
qed

section \<open>Batch analysis\<close>

text \<open>The loop appends one entry and one pipeline call per text, in order.\<close>

lemma batch_loop_eq:
  "batch_loop F p texts (events, results)
     = (events @ map PipelineCall texts, results @ map (batch_entry F p) texts)"
  by (induction texts arbitrary: events results) simp_all

lemma batch_sentiment_analysis_eq:
  "batch_sentiment_analysis F (Inr p) texts
     = (PipelineLoad # map PipelineCall texts, Inr (map (batch_entry F p) texts))"
  by (simp add: batch_sentiment_analysis_def batch_loop_eq)

lemma batch_entry_cases:
  "(\<forall>e. p t = Inl e \<longrightarrow>
        batch_entry F p t = [(ustr ''text'', PStr t), (ustr ''error'', PStr (exn_str e)),
                             (ustr ''status'', PStr (ustr ''error''))]) \<and>
   (p t = Inr [] \<longrightarrow>
        batch_entry F p t = [(ustr ''text'', PStr t),
                             (ustr ''error'', PStr (ustr ''list index out of range'')),
                             (ustr ''status'', PStr (ustr ''error''))]) \<and>
   (\<forall>r rest. p t = Inr (r # rest) \<longrightarrow>
        batch_entry F p t = [(ustr ''text'', PStr t),
                             (ustr ''label'', PStr (label r)),
                             (ustr ''score'', PFloat (float_round F (score r) 3)),
                             (ustr ''status'', PStr (ustr ''success''))])"
  by (simp add: batch_entry_def batch_try_def)

lemma batch_entry_text: "dict_get (batch_entry F p t) (ustr ''text'') = Some (PStr t)"
  by (simp add: batch_entry_def batch_try_def dict_get_def split: sum.splits list.splits)

text \<open>
  Claim C5: for every input list of texts, \<open>batch_sentiment_analysis\<close> returns a list
  of the same length whose i-th entry corresponds to the i-th input text; if the analysis
  of one item raises, only that item's entry carries status "error" with the message, and
  the remaining items are still processed.

  As stated, for every input list, this fails when the pipeline cannot be constructed:
  \<open>pipeline("sentiment-analysis")\<close> stands before the loop and outside its \<open>try\<close>,
  so the exception leaves the function and no list is returned.
\<close>

theorem batch_sentiment_analysis_load_error_raises:
  "snd (batch_sentiment_analysis binary64_ops
          (Inl (Exn OtherException (ustr ''model not found''))) [ustr ''a'', ustr ''b''])
     = Inl (Exn OtherException (ustr ''model not found''))"
  by (simp add: batch_sentiment_analysis_def)

text \<open>
  Claim C5, amended: once the pipeline has been constructed, the function returns a list
  as long as the input; the pipeline is called on every text, in input order; and the
  i-th entry holds the i-th text together with the error message and status "error" when
  the analysis of that text raises (the pipeline call, or the index into an empty
  output), and with the label, the rounded score and status "success" otherwise. An
  exception raised by the construction of the pipeline leaves the function as it is, and
  no text is analysed.
\<close>

theorem batch_sentiment_analysis_order:
  "(\<exists>rs. batch_sentiment_analysis F (Inr sentiment_pipeline) texts
           = (PipelineLoad # map PipelineCall texts, Inr rs) \<and>
        length rs = length texts \<and>
        (\<forall>i < length texts.
           dict_get (rs ! i) (ustr ''text'') = Some (PStr (texts ! i)) \<and>
           (\<forall>e. sentiment_pipeline (texts ! i) = Inl e \<longrightarrow>
              rs ! i = [(ustr ''text'', PStr (texts ! i)), (ustr ''error'', PStr (exn_str e)),
                        (ustr ''status'', PStr (ustr ''error''))]) \<and>
           (sentiment_pipeline (texts ! i) = Inr [] \<longrightarrow>
              rs ! i = [(ustr ''text'', PStr (texts ! i)),
                        (ustr ''error'', PStr (ustr ''list index out of range'')),
                        (ustr ''status'', PStr (ustr ''error''))]) \<and>
           (\<forall>r rest. sentiment_pipeline (texts ! i) = Inr (r # rest) \<longrightarrow>
              rs ! i = [(ustr ''text'', PStr (texts ! i)),
                        (ustr ''label'', PStr (label r)),
                        (ustr ''score'', PFloat (float_round F (score r) 3)),
                        (ustr ''status'', PStr (ustr ''success''))]))) \<and>
   batch_sentiment_analysis F (Inl e) texts = ([PipelineLoad], Inl e)"
  (is "?returned \<and> ?raised")
proof -
  let ?rs = "map (batch_entry F sentiment_pipeline) texts"
  have run: "batch_sentiment_analysis F (Inr sentiment_pipeline) texts
           = (PipelineLoad # map PipelineCall texts, Inr ?rs)"
    by (rule batch_sentiment_analysis_eq)
  have len: "length ?rs = length texts"
    by simp
  have item: "?rs ! i = batch_entry F sentiment_pipeline (texts ! i)" if "i < length texts" for i
    using that by simp
  have each: "dict_get (?rs ! i) (ustr ''text'') = Some (PStr (texts ! i)) \<and>
           (\<forall>e. sentiment_pipeline (texts ! i) = Inl e \<longrightarrow>
              ?rs ! i = [(ustr ''text'', PStr (texts ! i)), (ustr ''error'', PStr (exn_str e)),
                        (ustr ''status'', PStr (ustr ''error''))]) \<and>
           (sentiment_pipeline (texts ! i) = Inr [] \<longrightarrow>
              ?rs ! i = [(ustr ''text'', PStr (texts ! i)),
                        (ustr ''error'', PStr (ustr ''list index out of range'')),
                        (ustr ''status'', PStr (ustr ''error''))]) \<and>
           (\<forall>r rest. sentiment_pipeline (texts ! i) = Inr (r # rest) \<longrightarrow>
              ?rs ! i = [(ustr ''text'', PStr (texts ! i)),
                        (ustr ''label'', PStr (label r)),
                        (ustr ''score'', PFloat (float_round F (score r) 3)),
                        (ustr ''status'', PStr (ustr ''success''))])"
    if "i < length texts" for i
    unfolding item [OF that]
    using batch_entry_text [of F sentiment_pipeline "texts ! i"]
      batch_entry_cases [of sentiment_pipeline "texts ! i" F]
    by (intro conjI) (elim conjE, assumption)+
  show ?thesis
  proof
    from run len each show ?returned
      by (intro exI [of _ ?rs] conjI) blast+
    show ?raised
      by (simp add: batch_sentiment_analysis_def)
  qed
qed

theorem batch_sentiment_analysis_order_witness:
  "batch_sentiment_analysis binary64_ops (Inr flaky_pipeline) [ustr ''a'', ustr ''b'']
     = ([PipelineLoad, PipelineCall (ustr ''a''), PipelineCall (ustr ''b'')],
        Inr [[(ustr ''text'', PStr (ustr ''a'')),
              (ustr ''error'', PStr (ustr ''input too long'')),
              (ustr ''status'', PStr (ustr ''error''))],
             [(ustr ''text'', PStr (ustr ''b'')),
              (ustr ''label'', PStr (ustr ''POSITIVE'')),
              (ustr ''score'', PFloat 1),
              (ustr ''status'', PStr (ustr ''success''))]])"
proof -
  have a: "flaky_pipeline (ustr ''a'') = Inl (Exn OtherException (ustr ''input too long''))"
    by (simp add: flaky_pipeline_def)
  have b: "flaky_pipeline (ustr ''b'')
             = Inr [\<lparr>label = ustr ''POSITIVE'', score = 4095 / 4096\<rparr>]"
    by (simp add: flaky_pipeline_def)
  have r: "float_round binary64_ops (4095 / 4096) 3 = 1"
    by code_simp
  from batch_sentiment_analysis_order
         [of binary64_ops flaky_pipeline "[ustr ''a'', ustr ''b'']"
             "Exn OtherException (ustr ''model not found'')", THEN conjunct1]
  obtain rs where run: "batch_sentiment_analysis binary64_ops (Inr flaky_pipeline)
        [ustr ''a'', ustr ''b'']
           = (PipelineLoad # map PipelineCall [ustr ''a'', ustr ''b''], Inr rs)"
    and len: "length rs = 2"
    and r0: "rs ! 0 = [(ustr ''text'', PStr (ustr ''a'')),
              (ustr ''error'', PStr (ustr ''input too long'')),
              (ustr ''status'', PStr (ustr ''error''))]"
    and r1: "rs ! 1 = [(ustr ''text'', PStr (ustr ''b'')),
              (ustr ''label'', PStr (ustr ''POSITIVE'')),
              (ustr ''score'', PFloat 1),
              (ustr ''status'', PStr (ustr ''success''))]"
    using a b r by (auto simp: less_Suc_eq)
  from len have "rs = [rs ! 0, rs ! 1]"
    by (cases rs; cases "tl rs") auto
  with run r0 r1 show ?thesis by simp
qed

section \<open>The health check\<close>

text \<open>
  Claim C6: \<open>health_check\<close> takes no input and always returns the same static payload
  with the keys "status" (of value "healthy"), "service" and "message"; repeated calls
  return an identical object, it performs no model loading, and it always succeeds.

  The function reads neither an argument nor the environment, so it is a constant: its
  run has no event (no pipeline is loaded or called) and ends in the payload, not in an
  exception.
\<close>

theorem health_check_static:
  "fst health_check = [] \<and>
   (\<exists>service message.
      snd health_check = Inr [(ustr ''status'', PStr (ustr ''healthy'')),
                              (ustr ''service'', PStr service),
                              (ustr ''message'', PStr message)])"
  by (simp add: health_check_def)

section \<open>Defaults of the module\<close>

text \<open>
  Claim C7: when the application-name override is absent from the environment the app
  name is "sentiment-analyzer", and when the maximum-concurrent-requests override is
  absent the concurrency limit of the deployment descriptor of \<open>analyze_sentiment\<close>
  is 10.
\<close>

theorem module_defaults:
  "(env (ustr ''SENTIMENT_APP_NAME'') = None \<longrightarrow> app_name env = ustr ''sentiment-analyzer'') \<and>
   (env (ustr ''MAX_CONCURRENT_REQUESTS'') = None \<longrightarrow>
      (\<exists>d. analyze_sentiment_descriptor int_of_str env = Inr d \<and>
           d_concurrency_limit d = Some 10))"
  by (simp add: app_name_def analyze_sentiment_descriptor_def max_concurrent_requests_def)

theorem module_defaults_witness:
  "Map.empty (ustr ''SENTIMENT_APP_NAME'') = (None :: pystr option) \<and>
   app_name Map.empty = ustr ''sentiment-analyzer'' \<and>
   Map.empty (ustr ''MAX_CONCURRENT_REQUESTS'') = (None :: pystr option) \<and>
   (\<exists>d. analyze_sentiment_descriptor (\<lambda>s. Inl (Exn ValueError s)) Map.empty = Inr d \<and>
        d_concurrency_limit d = Some 10)"
  using module_defaults [of Map.empty "\<lambda>s. Inl (Exn ValueError s)"]
  by simp

section \<open>The text field\<close>

text \<open>
  Claim C9: every result returned by \<open>analyze_sentiment\<close>, and every entry of the list
  returned by \<open>batch_sentiment_analysis\<close>, carries a "text" field equal to the
  corresponding input text unchanged, in the success and in the error outcome.
\<close>

theorem text_field_kept:
  "(\<forall>d. snd (analyze_sentiment F transformers_pipeline text) = Inr d \<longrightarrow>
        dict_get d (ustr ''text'') = Some (PStr text)) \<and>
   (\<forall>rs. snd (batch_sentiment_analysis F batch_pipeline texts) = Inr rs \<longrightarrow>
        length rs = length texts \<and>
        (\<forall>i < length texts. dict_get (rs ! i) (ustr ''text'') = Some (PStr (texts ! i))))"
proof (intro conjI allI impI)
  fix d
  assume "snd (analyze_sentiment F transformers_pipeline text) = Inr d"
  then show "dict_get d (ustr ''text'') = Some (PStr text)"
    by (auto simp: analyze_sentiment_def analyze_try_def dict_get_def Let_def
        split: sum.splits)
next
  fix rs
  assume "snd (batch_sentiment_analysis F batch_pipeline texts) = Inr rs"
  then obtain p where "batch_pipeline = Inr p"
    and rs: "rs = map (batch_entry F p) texts"
    by (cases batch_pipeline) (auto simp: batch_sentiment_analysis_def batch_loop_eq)
  then show "length rs = length texts" by simp
  fix i
  assume "i < length texts"
  with rs show "dict_get (rs ! i) (ustr ''text'') = Some (PStr (texts ! i))"
    by (simp add: batch_entry_text)
qed

theorem text_field_kept_witness:
  "snd (analyze_sentiment binary64_ops (Inr workshop_pipeline) (ustr ''ok''))
     = Inr [(ustr ''text'', PStr (ustr ''ok'')),
            (ustr ''label'', PStr (ustr ''Positive'')),
            (ustr ''score'', PFloat (binary64 (984 / 1000))),
            (ustr ''confidence'', PStr (ustr ''98.4%'')),
            (ustr ''emoji'', PStr emoji_positive),
            (ustr ''status'', PStr (ustr ''success''))] \<and>
   dict_get [(ustr ''text'', PStr (ustr ''ok'')),
            (ustr ''label'', PStr (ustr ''Positive'')),
            (ustr ''score'', PFloat (binary64 (984 / 1000))),
            (ustr ''confidence'', PStr (ustr ''98.4%'')),
            (ustr ''emoji'', PStr emoji_positive),
            (ustr ''status'', PStr (ustr ''success''))] (ustr ''text'') = Some (PStr (ustr ''ok'')) \<and>
   snd (batch_sentiment_analysis binary64_ops (Inr flaky_pipeline) [ustr ''a''])
     = Inr [[(ustr ''text'', PStr (ustr ''a'')),
             (ustr ''error'', PStr (ustr ''input too long'')),
             (ustr ''status'', PStr (ustr ''error''))]] \<and>
   dict_get ([[(ustr ''text'', PStr (ustr ''a'')),
             (ustr ''error'', PStr (ustr ''input too long'')),
             (ustr ''status'', PStr (ustr ''error''))]] ! 0) (ustr ''text'')
     = Some (PStr (ustr ''a''))"
proof -
  have a: "snd (analyze_sentiment binary64_ops (Inr workshop_pipeline) (ustr ''ok''))
     = Inr [(ustr ''text'', PStr (ustr ''ok'')),
            (ustr ''label'', PStr (ustr ''Positive'')),
            (ustr ''score'', PFloat (binary64 (984 / 1000))),
            (ustr ''confidence'', PStr (ustr ''98.4%'')),
            (ustr ''emoji'', PStr emoji_positive),
            (ustr ''status'', PStr (ustr ''success''))]"
    by code_simp
  have b: "snd (batch_sentiment_analysis binary64_ops (Inr flaky_pipeline) [ustr ''a''])
     = Inr [[(ustr ''text'', PStr (ustr ''a'')),
             (ustr ''error'', PStr (ustr ''input too long'')),
             (ustr ''status'', PStr (ustr ''error''))]]"
    by code_simp
  show ?thesis
    using a b
      text_field_kept [of binary64_ops "Inr workshop_pipeline" "ustr ''ok''"
                          "Inr flaky_pipeline" "[ustr ''a'']"]
    by simp
qed

section \<open>The setup workflow\<close>
















lemma check_modal_installation_not_False:
  "snd (check_modal_installation env) \<noteq> Inr False"
  by (simp add: check_modal_installation_def Let_def split: option.splits)







section \<open>The installation check\<close>

lemma ustr_neq_append: "a \<noteq> b \<Longrightarrow> ustr (a # as) \<noteq> ustr (b # bs) @ m"
  by (simp add: ustr_Cons)

lemma neq_replicate: "length s \<noteq> n \<Longrightarrow> s \<noteq> replicate n c"
  by (metis length_replicate)

lemma install_failed_line_not_printed:
  "Print install_failed_line \<notin> set main_banner"
  "Print install_failed_line \<notin> set main_success"
  by (simp_all add: main_banner_def main_success_def install_failed_line_def neq_replicate
      ustr_def)

lemma install_failed_line_not_printed_by:
  "Print install_failed_line \<notin> set (fst (check_modal_installation env))"
  "Print install_failed_line \<notin> set (fst (load_environment env))"
  "Print install_failed_line \<notin> set (fst (setup_modal_auth env))"
  "Print install_failed_line \<notin> set (fst (verify_modal_connection env))"
  by (simp_all add: check_modal_installation_def load_environment_def setup_modal_auth_def
      verify_modal_connection_def verify_failed_def install_failed_line_def Let_def
      ustr_neq_append split: option.splits)

text \<open>
  Claim C10: \<open>check_modal_installation\<close> returns True whenever it returns at all: if
  the client library is present it returns True, if the installation succeeds it returns
  True, and if the installation subprocess fails it raises instead of returning False; so
  the install-failure branch of \<open>main\<close>, which prints "Failed to install Modal", is
  unreachable.

  Unreachable is stated on the output: on no machine does a run of \<open>main\<close> print the
  line of that branch.
\<close>

theorem check_modal_installation_never_false:
  "(\<forall>b. snd (check_modal_installation env) = Inr b \<longrightarrow> b) \<and>
   (import_modal env = None \<longrightarrow> snd (check_modal_installation env) = Inr True) \<and>
   (\<forall>e. import_modal env = Some e \<and> exn_class_of e = ImportError \<and>
        pip_install_modal env = None \<longrightarrow>
        snd (check_modal_installation env) = Inr True) \<and>
   (\<forall>e e'. import_modal env = Some e \<and> exn_class_of e = ImportError \<and>
        pip_install_modal env = Some e' \<longrightarrow>
        snd (check_modal_installation env) = Inl e') \<and>
   Print install_failed_line \<notin> set (fst (main env))"
proof -
  have result: "(\<forall>b. snd (check_modal_installation env) = Inr b \<longrightarrow> b) \<and>
   (import_modal env = None \<longrightarrow> snd (check_modal_installation env) = Inr True) \<and>
   (\<forall>e. import_modal env = Some e \<and> exn_class_of e = ImportError \<and>
        pip_install_modal env = None \<longrightarrow>
        snd (check_modal_installation env) = Inr True) \<and>
   (\<forall>e e'. import_modal env = Some e \<and> exn_class_of e = ImportError \<and>
        pip_install_modal env = Some e' \<longrightarrow>
        snd (check_modal_installation env) = Inl e')"
    by (auto simp: check_modal_installation_def Let_def split: option.splits if_splits)
  obtain ev1 r1 where c1: "check_modal_installation env = (ev1, r1)"
    by (cases "check_modal_installation env")
  obtain ev2 r2 where c2: "load_environment env = (ev2, r2)"
    by (cases "load_environment env")
  obtain ev3 r3 where c3: "setup_modal_auth env = (ev3, r3)"
    by (cases "setup_modal_auth env")
  obtain ev4 r4 where c4: "verify_modal_connection env = (ev4, r4)"
    by (cases "verify_modal_connection env")
  have n: "Print install_failed_line \<notin> set ev1" "Print install_failed_line \<notin> set ev2"
    "Print install_failed_line \<notin> set ev3" "Print install_failed_line \<notin> set ev4"
    using install_failed_line_not_printed_by [of env] c1 c2 c3 c4 by simp_all
  have lines: "install_failed_line \<noteq> step1_line" "install_failed_line \<noteq> step2_line"
    "install_failed_line \<noteq> step3_line" "install_failed_line \<noteq> step4_line"
    "install_failed_line \<noteq> ustr ''Authentication failed - please try manual setup''"
    "install_failed_line \<noteq> ustr ''Connection test failed - please check setup''"
    by (simp_all add: install_failed_line_def step1_line_def step2_line_def step3_line_def
        step4_line_def)
  have r1: "r1 \<noteq> Inr False"
    using check_modal_installation_not_False [of env] c1 by simp
  have "Print install_failed_line \<notin> set (fst (main env))"
    using r1
    by (cases r1; cases r2; cases r3; cases r4)
      (simp_all add: main_def Let_def c1 c2 c3 c4 n lines install_failed_line_not_printed)
  with result show ?thesis
    by (intro conjI) (elim conjE, assumption)+
qed

theorem check_modal_installation_never_false_witness:
  "import_modal machine_no_pip = Some (Exn ImportError (ustr ''No module named modal'')) \<and>
   exn_class_of (Exn ImportError (ustr ''No module named modal'')) = ImportError \<and>
   pip_install_modal machine_no_pip
     = Some (Exn CalledProcessError (ustr ''Command returned non-zero exit status 1.'')) \<and>
   snd (check_modal_installation machine_no_pip)
     = Inl (Exn CalledProcessError (ustr ''Command returned non-zero exit status 1.'')) \<and>
   import_modal machine_ready = None \<and>
   snd (check_modal_installation machine_ready) = Inr True \<and>
   Print install_failed_line \<notin> set (fst (main machine_no_pip))"
proof -
  have h: "import_modal machine_no_pip = Some (Exn ImportError (ustr ''No module named modal''))"
    "exn_class_of (Exn ImportError (ustr ''No module named modal'')) = ImportError"
    "pip_install_modal machine_no_pip
       = Some (Exn CalledProcessError (ustr ''Command returned non-zero exit status 1.''))"
    "import_modal machine_ready = None"
    by (simp_all add: machine_no_pip_def machine_ready_def)
  from h check_modal_installation_never_false [of machine_no_pip]
  have A: "snd (check_modal_installation machine_no_pip)
     = Inl (Exn CalledProcessError (ustr ''Command returned non-zero exit status 1.'')) \<and>
     Print install_failed_line \<notin> set (fst (main machine_no_pip))"
    by blast
  from h check_modal_installation_never_false [of machine_ready]
  have B: "snd (check_modal_installation machine_ready) = Inr True"
    by blast
  from h A B show ?thesis
    by (intro conjI) (elim conjE, assumption)+
qed

end
